theory Spec2Isabelle
  imports Main "HOL-Library.Word"
begin

section \<open>The C interface of the miniscript wrapper\<close>

text \<open>
  The wrapper (\<^verbatim>\<open>miniscript_wrapper.cpp\<close>, \<^verbatim>\<open>descriptor_wrapper.cpp\<close>, \<^verbatim>\<open>stubs.cpp\<close>) is a
  layer of C functions around the miniscript and descriptor classes of Bitcoin Core.
  The classes themselves are a vendored dependency: their member functions
  (\<^verbatim>\<open>FromString\<close>, \<^verbatim>\<open>IsValid\<close>, \<^verbatim>\<open>GetType\<close>, \<^verbatim>\<open>Parse\<close>, \<^verbatim>\<open>Expand\<close>, ...) enter the model as
  the fields of a record of functions, and every wrapper function takes that record as
  its first argument. The few library functions that the spec defines in terms of others
  (\<^verbatim>\<open>IsSane\<close>, \<^verbatim>\<open>IsNonMalleable\<close>, \<^verbatim>\<open>NeedsSignature\<close>, the top-level \<^verbatim>\<open>Satisfy\<close>) are definitions
  over that record, each marked as modelled from the spec.

  Conventions of the embedding:
  \<^item> a pointer that may be null is an \<open>option\<close>, \<open>None\<close> being the null pointer; an output
    parameter \<^verbatim>\<open>T* out\<close> is an \<open>option\<close> holding the present content of the slot, and each
    function returns the content of its slots after the call next to its return value;
  \<^item> a C++ exception is the left summand of a sum type, so that \<^verbatim>\<open>try\<close>/\<^verbatim>\<open>catch\<close> is a case
    distinction;
  \<^item> C enumerations received from the caller are \<open>int\<close>, since the caller can pass any value;
  \<^item> \<^verbatim>\<open>malloc\<close> and \<^verbatim>\<open>new\<close> are taken to return storage (the heap is not exhausted), and
    \<^verbatim>\<open>free\<close> is not modelled.
\<close>

type_synonym byte = "8 word"

datatype exn = StdException string | OtherException

text \<open>\<^verbatim>\<open>miniscript::MiniscriptContext\<close> and \<^verbatim>\<open>miniscript::Availability\<close> of the library.\<close>

datatype MiniscriptContext = P2WSH | TAPSCRIPT

datatype Availability = NO | YES | MAYBE

text \<open>The enumerations of \<^verbatim>\<open>miniscript_wrapper.h\<close>.\<close>

definition MINISCRIPT_CONTEXT_WSH :: int where "MINISCRIPT_CONTEXT_WSH = 0"
definition MINISCRIPT_CONTEXT_TAPSCRIPT :: int where "MINISCRIPT_CONTEXT_TAPSCRIPT = 1"

definition MINISCRIPT_AVAILABILITY_NO :: int where "MINISCRIPT_AVAILABILITY_NO = 0"
definition MINISCRIPT_AVAILABILITY_YES :: int where "MINISCRIPT_AVAILABILITY_YES = 1"
definition MINISCRIPT_AVAILABILITY_MAYBE :: int where "MINISCRIPT_AVAILABILITY_MAYBE = 2"

record MiniscriptResult =
  success :: bool
  error_message :: "string option"

record SatisfactionResult =
  availability :: int
  stack :: "byte list option list option"
  stack_sizes :: "nat list option"
  stack_count :: nat
  sat_error_message :: "string option"

subsection \<open>Keys and key contexts\<close>

record StringKey =
  str :: string

datatype StringKeyContext = StringKeyContext MiniscriptContext

fun MsContext :: "StringKeyContext \<Rightarrow> MiniscriptContext" where
  "MsContext (StringKeyContext c) = c"

text \<open>
  \<^verbatim>\<open>StringKeyContext\<close>, the key context of parsing and printing. Its encoders do not look
  at the key: a key is written as zero bytes and read back as a fixed name.
\<close>

definition StringKeyContext_FromString :: "StringKeyContext \<Rightarrow> string \<Rightarrow> StringKey option" where
  "StringKeyContext_FromString kc s = Some \<lparr>str = s\<rparr>"

definition StringKeyContext_ToString :: "StringKeyContext \<Rightarrow> StringKey \<Rightarrow> string option" where
  "StringKeyContext_ToString kc key = Some (str key)"

definition StringKeyContext_ToPKBytes :: "StringKeyContext \<Rightarrow> StringKey \<Rightarrow> byte list" where
  "StringKeyContext_ToPKBytes kc key =
     (if MsContext kc = TAPSCRIPT then replicate 32 0 else replicate 33 0)"

definition StringKeyContext_ToPKHBytes :: "StringKeyContext \<Rightarrow> StringKey \<Rightarrow> byte list" where
  "StringKeyContext_ToPKHBytes kc key = replicate 20 0"

definition StringKeyContext_FromPKBytes :: "StringKeyContext \<Rightarrow> byte list \<Rightarrow> StringKey option" where
  "StringKeyContext_FromPKBytes kc bs = Some \<lparr>str = ''decoded_key''\<rparr>"

definition StringKeyContext_FromPKHBytes :: "StringKeyContext \<Rightarrow> byte list \<Rightarrow> StringKey option" where
  "StringKeyContext_FromPKHBytes kc bs = Some \<lparr>str = ''decoded_pkh_key''\<rparr>"

subsection \<open>The satisfier built on the caller's callbacks\<close>

text \<open>
  What a sign or hash callback leaves behind: its return value and the two output slots
  \<^verbatim>\<open>*sig_out\<close> and \<^verbatim>\<open>*sig_len_out\<close>, which the wrapper sets to null and 0 before the call.
  The opaque \<^verbatim>\<open>rust_context\<close> is part of the callback closure.
\<close>

record callback_out =
  cb_avail :: int
  cb_out :: "byte list option"
  cb_len :: nat

record SatisfierCallbacks =
  sign_callback :: "(byte list \<Rightarrow> callback_out) option"
  check_after_callback :: "(32 word \<Rightarrow> bool) option"
  check_older_callback :: "(32 word \<Rightarrow> bool) option"
  sat_sha256_callback :: "(byte list \<Rightarrow> callback_out) option"
  sat_ripemd160_callback :: "(byte list \<Rightarrow> callback_out) option"
  sat_hash256_callback :: "(byte list \<Rightarrow> callback_out) option"
  sat_hash160_callback :: "(byte list \<Rightarrow> callback_out) option"

record CallbackSatisfier =
  callbacks :: "SatisfierCallbacks option"
  ms_ctx :: MiniscriptContext

text \<open>
  \<^verbatim>\<open>sscanf(p, "%02x", &byte)\<close> of the C library, as \<^verbatim>\<open>Some\<close> of the stored value when the
  call returns 1. The conversion skips white space, then reads at most two characters: an
  optional sign and hexadecimal digits. A negative value wraps in \<^verbatim>\<open>unsigned int\<close>. A
  leading \<^verbatim>\<open>0\<close> followed by \<^verbatim>\<open>x\<close> or \<^verbatim>\<open>X\<close> is read as the digit 0 and the prefix letter, which
  uses up the two characters: the C library that the wrapper runs on (glibc) returns 1
  there and stores 0.
\<close>

definition isspace :: "char \<Rightarrow> bool" where
  "isspace c = (c \<in> set [CHR '' '', CHR 0x09, CHR 0x0A, CHR 0x0B, CHR 0x0C, CHR 0x0D])"

definition xdigit :: "char \<Rightarrow> nat option" where
  "xdigit c =
     (let n = (of_char c :: nat) in
      if 48 \<le> n \<and> n \<le> 57 then Some (n - 48)
      else if 97 \<le> n \<and> n \<le> 102 then Some (n - 87)
      else if 65 \<le> n \<and> n \<le> 70 then Some (n - 55)
      else None)"

definition sscanf_02x :: "string \<Rightarrow> 32 word option" where
  "sscanf_02x p =
     (case dropWhile isspace p of
        [] \<Rightarrow> None
      | c # cs \<Rightarrow>
          if c = CHR ''+'' \<or> c = CHR ''-'' then
            (case cs of
               [] \<Rightarrow> None
             | d # _ \<Rightarrow>
                 (case xdigit d of
                    None \<Rightarrow> None
                  | Some v \<Rightarrow> Some (if c = CHR ''-'' then - of_nat v else of_nat v)))
          else
            (case xdigit c of
               None \<Rightarrow> None
             | Some v \<Rightarrow>
                 (case cs of
                    [] \<Rightarrow> Some (of_nat v)
                  | d # _ \<Rightarrow>
                      if c = CHR ''0'' \<and> (d = CHR ''x'' \<or> d = CHR ''X'') then Some 0
                      else (case xdigit d of
                              None \<Rightarrow> Some (of_nat v)
                            | Some w \<Rightarrow> Some (of_nat (16 * v + w))))))"

text \<open>\<^verbatim>\<open>key.str.c_str() + i\<close>: the characters from index \<open>i\<close> up to the first NUL.\<close>

definition c_str_from :: "string \<Rightarrow> nat \<Rightarrow> string" where
  "c_str_from s i = takeWhile (\<lambda>c. c \<noteq> CHR 0x00) (drop i s)"

definition placeholder_key :: "MiniscriptContext \<Rightarrow> byte list" where
  "placeholder_key c = (if c = TAPSCRIPT then replicate 32 0 else replicate 33 0)"

text \<open>The loop of \<^verbatim>\<open>CallbackSatisfier::ToPKBytes\<close>, with its index and its result vector.\<close>

function ToPKBytes_loop :: "MiniscriptContext \<Rightarrow> string \<Rightarrow> nat \<Rightarrow> byte list \<Rightarrow> byte list" where
  "ToPKBytes_loop c s i result =
     (if i < length s then
        (case sscanf_02x (c_str_from s i) of
           Some b \<Rightarrow> ToPKBytes_loop c s (i + 2) (result @ [ucast b])
         | None \<Rightarrow> placeholder_key c)
      else result)"
  by pat_completeness auto
termination
  by (relation "measure (\<lambda>(c, s, i, result). length s - i)") auto

declare ToPKBytes_loop.simps [simp del]

definition CallbackSatisfier_ToPKBytes :: "CallbackSatisfier \<Rightarrow> StringKey \<Rightarrow> byte list" where
  "CallbackSatisfier_ToPKBytes sat key =
     (if length (str key) \<ge> 2 then ToPKBytes_loop (ms_ctx sat) (str key) 0 []
      else placeholder_key (ms_ctx sat))"

definition CallbackSatisfier_ToPKHBytes :: "CallbackSatisfier \<Rightarrow> StringKey \<Rightarrow> byte list" where
  "CallbackSatisfier_ToPKHBytes sat key = replicate 20 0"

text \<open>
  \<^verbatim>\<open>sig.assign(sig_out, sig_out + sig_len)\<close> reads \<open>sig_len\<close> bytes of the callback's buffer
  (which is taken to hold that many), and \<^verbatim>\<open>sig.resize(72, 0x30)\<close> cuts the vector to 72
  bytes or fills it up to 72 with \<open>0x30\<close>.
\<close>

definition assign :: "byte list \<Rightarrow> nat \<Rightarrow> byte list" where
  "assign buf n = take n buf"

definition resize :: "byte list \<Rightarrow> nat \<Rightarrow> byte \<Rightarrow> byte list" where
  "resize v n b = take n v @ replicate (n - length v) b"

definition Sign :: "CallbackSatisfier \<Rightarrow> StringKey \<Rightarrow> byte list \<Rightarrow> Availability \<times> byte list" where
  "Sign sat key sig =
     (case callbacks sat of
        None \<Rightarrow> (NO, sig)
      | Some cbs \<Rightarrow>
          (case sign_callback cbs of
             None \<Rightarrow> (NO, sig)
           | Some cb \<Rightarrow>
               (let key_bytes = CallbackSatisfier_ToPKBytes sat key;
                    r = cb key_bytes
                in if cb_avail r = MINISCRIPT_AVAILABILITY_YES \<and> cb_out r \<noteq> None \<and> cb_len r > 0
                   then (YES, assign (the (cb_out r)) (cb_len r))
                   else if cb_avail r = MINISCRIPT_AVAILABILITY_MAYBE then
                     (if cb_out r \<noteq> None \<and> cb_len r > 0
                      then (MAYBE, assign (the (cb_out r)) (cb_len r))
                      else (MAYBE, resize sig 72 0x30))
                   else (NO, sig))))"

definition CheckAfter :: "CallbackSatisfier \<Rightarrow> 32 word \<Rightarrow> bool" where
  "CheckAfter sat v =
     (case callbacks sat of
        None \<Rightarrow> False
      | Some cbs \<Rightarrow> (case check_after_callback cbs of None \<Rightarrow> False | Some cb \<Rightarrow> cb v))"

definition CheckOlder :: "CallbackSatisfier \<Rightarrow> 32 word \<Rightarrow> bool" where
  "CheckOlder sat v =
     (case callbacks sat of
        None \<Rightarrow> False
      | Some cbs \<Rightarrow> (case check_older_callback cbs of None \<Rightarrow> False | Some cb \<Rightarrow> cb v))"

text \<open>
  The four hash callbacks share one body, which differs only in the callback it reads
  from the table.
\<close>

definition sat_hash ::
  "(SatisfierCallbacks \<Rightarrow> (byte list \<Rightarrow> callback_out) option) \<Rightarrow> CallbackSatisfier \<Rightarrow>
     byte list \<Rightarrow> byte list \<Rightarrow> Availability \<times> byte list" where
  "sat_hash sel sat hash preimage =
     (case callbacks sat of
        None \<Rightarrow> (NO, preimage)
      | Some cbs \<Rightarrow>
          (case sel cbs of
             None \<Rightarrow> (NO, preimage)
           | Some cb \<Rightarrow>
               (let r = cb hash
                in if cb_avail r = MINISCRIPT_AVAILABILITY_YES \<and> cb_out r \<noteq> None \<and> cb_len r > 0
                   then (YES, assign (the (cb_out r)) (cb_len r))
                   else if cb_avail r = MINISCRIPT_AVAILABILITY_MAYBE then (MAYBE, preimage)
                   else (NO, preimage))))"

definition SatSHA256 :: "CallbackSatisfier \<Rightarrow> byte list \<Rightarrow> byte list \<Rightarrow> Availability \<times> byte list" where
  "SatSHA256 = sat_hash sat_sha256_callback"

definition SatRIPEMD160 :: "CallbackSatisfier \<Rightarrow> byte list \<Rightarrow> byte list \<Rightarrow> Availability \<times> byte list" where
  "SatRIPEMD160 = sat_hash sat_ripemd160_callback"

definition SatHASH256 :: "CallbackSatisfier \<Rightarrow> byte list \<Rightarrow> byte list \<Rightarrow> Availability \<times> byte list" where
  "SatHASH256 = sat_hash sat_hash256_callback"

definition SatHASH160 :: "CallbackSatisfier \<Rightarrow> byte list \<Rightarrow> byte list \<Rightarrow> Availability \<times> byte list" where
  "SatHASH160 = sat_hash sat_hash160_callback"

subsection \<open>The miniscript library behind the wrapper\<close>

text \<open>
  Modelled from the spec: the \<^verbatim>\<open>Type\<close> of a node (section 4.2: a set of independent
  properties, written with the letters \<^verbatim>\<open>B V K W z o n d u e f s m x k\<close>), the literal
  \<^verbatim>\<open>"..."_mst\<close> that builds one from its letters, and the test \<^verbatim>\<open>x << y\<close> that \<open>x\<close> has
  every property of \<open>y\<close>. The library header that declares them is not part of the
  wrapper's sources.
\<close>

type_synonym Type = "char set"

definition mst :: "string \<Rightarrow> Type" where
  "mst letters = set letters"

definition has_props :: "Type \<Rightarrow> Type \<Rightarrow> bool" where
  "has_props x y = (y \<subseteq> x)"

text \<open>
  The member functions of \<^verbatim>\<open>miniscript::Node\<close> and the two parsers that the wrapper calls,
  over any representation \<open>'n\<close> of a node. The calls that the wrapper makes inside a
  \<^verbatim>\<open>try\<close> block and that build a value may throw. The parsers and printers receive the
  key context, whose functions they call for the keys. The satisfier engine enters as the
  satisfaction candidate that it builds for the root of a tree (section 3: a sequence of
  byte strings tagged with its availability), for any way of building it.
\<close>

record 'n miniscript_lib =
  FromString :: "string \<Rightarrow> StringKeyContext \<Rightarrow> exn + 'n option"
  FromScript :: "byte list \<Rightarrow> StringKeyContext \<Rightarrow> exn + 'n option"
  ToString :: "'n \<Rightarrow> StringKeyContext \<Rightarrow> exn + string option"
  ToScript :: "'n \<Rightarrow> StringKeyContext \<Rightarrow> exn + byte list"
  IsValid :: "'n \<Rightarrow> bool"
  GetType :: "'n \<Rightarrow> Type"
  GetWitnessSize :: "'n \<Rightarrow> 32 word option"
  IsValidTopLevel :: "'n \<Rightarrow> bool"
  CheckOpsLimit :: "'n \<Rightarrow> bool"
  CheckStackSize :: "'n \<Rightarrow> bool"
  CheckDuplicateKey :: "'n \<Rightarrow> bool"
  GetOps :: "'n \<Rightarrow> 32 word option"
  GetStackSize :: "'n \<Rightarrow> 32 word option"
  GetExecStackSize :: "'n \<Rightarrow> 32 word option"
  ScriptSize :: "'n \<Rightarrow> nat"
  FindInsaneSub :: "'n \<Rightarrow> exn + 'n option"
  ValidSatisfactions :: "'n \<Rightarrow> bool"
  GetStaticOps :: "'n \<Rightarrow> 32 word"
  root_candidate :: "'n \<Rightarrow> CallbackSatisfier \<Rightarrow> bool \<Rightarrow> exn + Availability \<times> byte list list"

text \<open>
  Modelled from the spec: the three queries of \<^verbatim>\<open>miniscript::Node\<close> that section 4.2
  defines in terms of the others, the library that implements them not being part of the
  wrapper's sources. \<^verbatim>\<open>is_non_malleable()\<close> is the \<^verbatim>\<open>m\<close> bit, \<^verbatim>\<open>needs_signature()\<close> is
  the \<^verbatim>\<open>s\<close> bit, and \<^verbatim>\<open>is_sane()\<close> is: valid, non-malleable (\<^verbatim>\<open>m\<close>), no duplicate keys
  across the whole tree, and free of timelock-unit mixing (the \<^verbatim>\<open>k\<close> bit).
\<close>

text \<open>
  Modelled from the spec: the top-level call \<^verbatim>\<open>Node::Satisfy\<close> of the library, which is not
  part of the wrapper's sources. Section 4.4: a candidate built from estimated leaves must
  never be returned as a final witness, and the call fails if the root has no Available
  candidate. So the call reports the availability of the root candidate, and leaves the
  candidate's stack in the vector of the caller (which the wrapper passes in empty) only
  when the candidate is Available.
\<close>

definition Satisfy ::
  "'n miniscript_lib \<Rightarrow> 'n \<Rightarrow> CallbackSatisfier \<Rightarrow> bool \<Rightarrow> exn + Availability \<times> byte list list" where
  "Satisfy L t sat nonmalleable =
     (case root_candidate L t sat nonmalleable of
        Inl e \<Rightarrow> Inl e
      | Inr (a, st) \<Rightarrow> Inr (a, if a = YES then st else []))"

definition IsNonMalleable :: "'n miniscript_lib \<Rightarrow> 'n \<Rightarrow> bool" where
  "IsNonMalleable L t = has_props (GetType L t) (mst ''m'')"

definition NeedsSignature :: "'n miniscript_lib \<Rightarrow> 'n \<Rightarrow> bool" where
  "NeedsSignature L t = has_props (GetType L t) (mst ''s'')"

definition IsSane :: "'n miniscript_lib \<Rightarrow> 'n \<Rightarrow> bool" where
  "IsSane L t =
     (IsValid L t \<and> IsNonMalleable L t \<and> CheckDuplicateKey L t
      \<and> has_props (GetType L t) (mst ''k''))"

subsection \<open>The exported functions of \<^verbatim>\<open>miniscript_wrapper.cpp\<close>\<close>

record 'n MiniscriptNode =
  node :: "'n option"
  ctx :: MiniscriptContext

text \<open>
  \<^verbatim>\<open>strdup_safe\<close> copies a C string: null for null, and otherwise the characters up to the
  first NUL (for a \<^verbatim>\<open>std::string\<close> argument, those of its \<^verbatim>\<open>c_str()\<close>).
\<close>

definition strdup_safe :: "string option \<Rightarrow> string option" where
  "strdup_safe s =
     (case s of None \<Rightarrow> None | Some cs \<Rightarrow> Some (takeWhile (\<lambda>c. c \<noteq> CHR 0x00) cs))"

text \<open>The \<^verbatim>\<open>switch (ctx)\<close> of both parsers; \<open>None\<close> is its \<^verbatim>\<open>default\<close> branch.\<close>

definition switch_ctx :: "int \<Rightarrow> MiniscriptContext option" where
  "switch_ctx c =
     (if c = MINISCRIPT_CONTEXT_WSH then Some P2WSH
      else if c = MINISCRIPT_CONTEXT_TAPSCRIPT then Some TAPSCRIPT
      else None)"

definition failure :: "string \<Rightarrow> MiniscriptResult" where
  "failure msg = \<lparr>success = False, error_message = strdup_safe (Some msg)\<rparr>"

definition miniscript_from_string ::
  "'n miniscript_lib \<Rightarrow> string option \<Rightarrow> int \<Rightarrow> 'n MiniscriptNode option option \<Rightarrow>
     MiniscriptResult \<times> 'n MiniscriptNode option option" where
  "miniscript_from_string L input c out_node =
     (case input of
        None \<Rightarrow> (failure ''Invalid arguments: null pointer'', out_node)
      | Some input_str \<Rightarrow>
          (case out_node of
             None \<Rightarrow> (failure ''Invalid arguments: null pointer'', out_node)
           | Some _ \<Rightarrow>
               (case switch_ctx c of
                  None \<Rightarrow> (failure ''Invalid context'', Some None)
                | Some ms \<Rightarrow>
                    (case FromString L input_str (StringKeyContext ms) of
                       Inl (StdException what) \<Rightarrow> (failure what, Some None)
                     | Inl OtherException \<Rightarrow> (failure ''Unknown error during parsing'', Some None)
                     | Inr None \<Rightarrow> (failure ''Failed to parse miniscript'', Some None)
                     | Inr (Some t) \<Rightarrow>
                         if \<not> IsValid L t
                         then (failure ''Parsed miniscript is not valid'', Some None)
                         else (\<lparr>success = True, error_message = None\<rparr>,
                               Some (Some \<lparr>node = Some t, ctx = ms\<rparr>))))))"

definition miniscript_from_script ::
  "'n miniscript_lib \<Rightarrow> byte list option \<Rightarrow> int \<Rightarrow> 'n MiniscriptNode option option \<Rightarrow>
     MiniscriptResult \<times> 'n MiniscriptNode option option" where
  "miniscript_from_script L script c out_node =
     (case script of
        None \<Rightarrow> (failure ''Invalid arguments: null pointer'', out_node)
      | Some cscript \<Rightarrow>
          (case out_node of
             None \<Rightarrow> (failure ''Invalid arguments: null pointer'', out_node)
           | Some _ \<Rightarrow>
               (case switch_ctx c of
                  None \<Rightarrow> (failure ''Invalid context'', Some None)
                | Some ms \<Rightarrow>
                    (case FromScript L cscript (StringKeyContext ms) of
                       Inl (StdException what) \<Rightarrow> (failure what, Some None)
                     | Inl OtherException \<Rightarrow>
                         (failure ''Unknown error during script parsing'', Some None)
                     | Inr None \<Rightarrow> (failure ''Failed to parse script as miniscript'', Some None)
                     | Inr (Some t) \<Rightarrow>
                         if \<not> IsValid L t
                         then (failure ''Parsed miniscript is not valid'', Some None)
                         else (\<lparr>success = True, error_message = None\<rparr>,
                               Some (Some \<lparr>node = Some t, ctx = ms\<rparr>))))))"

text \<open>
  The guard \<^verbatim>\<open>!node || !node->node\<close> of every accessor: the tree behind the handle, if
  there is a handle and it holds a tree.
\<close>

definition tree_of :: "'n MiniscriptNode option \<Rightarrow> 'n option" where
  "tree_of n = (case n of None \<Rightarrow> None | Some h \<Rightarrow> node h)"

definition miniscript_to_string :: "'n miniscript_lib \<Rightarrow> 'n MiniscriptNode option \<Rightarrow> string option" where
  "miniscript_to_string L n =
     (case n of
        None \<Rightarrow> None
      | Some h \<Rightarrow>
          (case node h of
             None \<Rightarrow> None
           | Some t \<Rightarrow>
               (case ToString L t (StringKeyContext (ctx h)) of
                  Inl _ \<Rightarrow> None
                | Inr None \<Rightarrow> None
                | Inr (Some s) \<Rightarrow> strdup_safe (Some s))))"

definition miniscript_to_script ::
  "'n miniscript_lib \<Rightarrow> 'n MiniscriptNode option \<Rightarrow> byte list option option \<Rightarrow> nat option \<Rightarrow>
     bool \<times> byte list option option \<times> nat option" where
  "miniscript_to_script L n out_script out_len =
     (case n of
        None \<Rightarrow> (False, out_script, out_len)
      | Some h \<Rightarrow>
          (case node h of
             None \<Rightarrow> (False, out_script, out_len)
           | Some t \<Rightarrow>
               if out_script = None \<or> out_len = None then (False, out_script, out_len)
               else (case ToScript L t (StringKeyContext (ctx h)) of
                       Inl _ \<Rightarrow> (False, out_script, out_len)
                     | Inr script \<Rightarrow> (True, Some (Some script), Some (length script)))))"

definition miniscript_is_valid :: "'n miniscript_lib \<Rightarrow> 'n MiniscriptNode option \<Rightarrow> bool" where
  "miniscript_is_valid L n = (case tree_of n of None \<Rightarrow> False | Some t \<Rightarrow> IsValid L t)"

definition miniscript_is_sane :: "'n miniscript_lib \<Rightarrow> 'n MiniscriptNode option \<Rightarrow> bool" where
  "miniscript_is_sane L n = (case tree_of n of None \<Rightarrow> False | Some t \<Rightarrow> IsSane L t)"

definition miniscript_get_type :: "'n miniscript_lib \<Rightarrow> 'n MiniscriptNode option \<Rightarrow> string option" where
  "miniscript_get_type L n =
     (case tree_of n of
        None \<Rightarrow> None
      | Some t \<Rightarrow>
          strdup_safe
            (Some (filter (\<lambda>l. has_props (GetType L t) (mst [l])) ''BVKWzonduefsmxk'')))"

definition miniscript_max_satisfaction_size ::
  "'n miniscript_lib \<Rightarrow> 'n MiniscriptNode option \<Rightarrow> nat option \<Rightarrow> bool \<times> nat option" where
  "miniscript_max_satisfaction_size L n out_size =
     (case tree_of n of
        None \<Rightarrow> (False, out_size)
      | Some t \<Rightarrow>
          if out_size = None then (False, out_size)
          else (case GetWitnessSize L t of
                  Some sz \<Rightarrow> (True, Some (unat sz))
                | None \<Rightarrow> (False, out_size)))"

definition miniscript_is_non_malleable :: "'n miniscript_lib \<Rightarrow> 'n MiniscriptNode option \<Rightarrow> bool" where
  "miniscript_is_non_malleable L n =
     (case tree_of n of None \<Rightarrow> False | Some t \<Rightarrow> IsNonMalleable L t)"

definition miniscript_needs_signature :: "'n miniscript_lib \<Rightarrow> 'n MiniscriptNode option \<Rightarrow> bool" where
  "miniscript_needs_signature L n =
     (case tree_of n of None \<Rightarrow> False | Some t \<Rightarrow> NeedsSignature L t)"

definition miniscript_has_timelock_mix :: "'n miniscript_lib \<Rightarrow> 'n MiniscriptNode option \<Rightarrow> bool" where
  "miniscript_has_timelock_mix L n =
     (case tree_of n of
        None \<Rightarrow> False
      | Some t \<Rightarrow> \<not> has_props (GetType L t) (mst ''k''))"

definition miniscript_is_valid_top_level :: "'n miniscript_lib \<Rightarrow> 'n MiniscriptNode option \<Rightarrow> bool" where
  "miniscript_is_valid_top_level L n =
     (case tree_of n of None \<Rightarrow> False | Some t \<Rightarrow> IsValidTopLevel L t)"

definition miniscript_check_ops_limit :: "'n miniscript_lib \<Rightarrow> 'n MiniscriptNode option \<Rightarrow> bool" where
  "miniscript_check_ops_limit L n =
     (case tree_of n of None \<Rightarrow> False | Some t \<Rightarrow> CheckOpsLimit L t)"

definition miniscript_check_stack_size :: "'n miniscript_lib \<Rightarrow> 'n MiniscriptNode option \<Rightarrow> bool" where
  "miniscript_check_stack_size L n =
     (case tree_of n of None \<Rightarrow> False | Some t \<Rightarrow> CheckStackSize L t)"

definition miniscript_check_duplicate_key :: "'n miniscript_lib \<Rightarrow> 'n MiniscriptNode option \<Rightarrow> bool" where
  "miniscript_check_duplicate_key L n =
     (case tree_of n of None \<Rightarrow> False | Some t \<Rightarrow> CheckDuplicateKey L t)"

text \<open>
  The accessors with one output slot: they write the slot and return true when the
  library has a value, and leave it alone otherwise.
\<close>

definition miniscript_get_ops ::
  "'n miniscript_lib \<Rightarrow> 'n MiniscriptNode option \<Rightarrow> 32 word option \<Rightarrow> bool \<times> 32 word option" where
  "miniscript_get_ops L n out_ops =
     (case tree_of n of
        None \<Rightarrow> (False, out_ops)
      | Some t \<Rightarrow>
          if out_ops = None then (False, out_ops)
          else (case GetOps L t of
                  Some ops \<Rightarrow> (True, Some ops)
                | None \<Rightarrow> (False, out_ops)))"

definition miniscript_get_stack_size ::
  "'n miniscript_lib \<Rightarrow> 'n MiniscriptNode option \<Rightarrow> 32 word option \<Rightarrow> bool \<times> 32 word option" where
  "miniscript_get_stack_size L n out_size =
     (case tree_of n of
        None \<Rightarrow> (False, out_size)
      | Some t \<Rightarrow>
          if out_size = None then (False, out_size)
          else (case GetStackSize L t of
                  Some sz \<Rightarrow> (True, Some sz)
                | None \<Rightarrow> (False, out_size)))"

definition miniscript_get_exec_stack_size ::
  "'n miniscript_lib \<Rightarrow> 'n MiniscriptNode option \<Rightarrow> 32 word option \<Rightarrow> bool \<times> 32 word option" where
  "miniscript_get_exec_stack_size L n out_size =
     (case tree_of n of
        None \<Rightarrow> (False, out_size)
      | Some t \<Rightarrow>
          if out_size = None then (False, out_size)
          else (case GetExecStackSize L t of
                  Some sz \<Rightarrow> (True, Some sz)
                | None \<Rightarrow> (False, out_size)))"

definition miniscript_get_script_size ::
  "'n miniscript_lib \<Rightarrow> 'n MiniscriptNode option \<Rightarrow> nat option \<Rightarrow> bool \<times> nat option" where
  "miniscript_get_script_size L n out_size =
     (case tree_of n of
        None \<Rightarrow> (False, out_size)
      | Some t \<Rightarrow>
          if out_size = None then (False, out_size)
          else (True, Some (ScriptSize L t)))"

definition miniscript_find_insane_sub ::
  "'n miniscript_lib \<Rightarrow> 'n MiniscriptNode option \<Rightarrow> 'n MiniscriptNode option" where
  "miniscript_find_insane_sub L n =
     (case tree_of n of
        None \<Rightarrow> None
      | Some t \<Rightarrow>
          (case FindInsaneSub L t of
             Inl _ \<Rightarrow> None
           | Inr None \<Rightarrow> None
           | Inr (Some insane_sub) \<Rightarrow> None))"

definition miniscript_valid_satisfactions :: "'n miniscript_lib \<Rightarrow> 'n MiniscriptNode option \<Rightarrow> bool" where
  "miniscript_valid_satisfactions L n =
     (case tree_of n of None \<Rightarrow> False | Some t \<Rightarrow> ValidSatisfactions L t)"

definition miniscript_get_static_ops ::
  "'n miniscript_lib \<Rightarrow> 'n MiniscriptNode option \<Rightarrow> 32 word option \<Rightarrow> bool \<times> 32 word option" where
  "miniscript_get_static_ops L n out_ops =
     (case tree_of n of
        None \<Rightarrow> (False, out_ops)
      | Some t \<Rightarrow>
          if out_ops = None then (False, out_ops)
          else (True, Some (GetStaticOps L t)))"

text \<open>
  \<^verbatim>\<open>miniscript_satisfy\<close>. The result starts as \<^verbatim>\<open>{NO, nullptr, nullptr, 0, nullptr}\<close>. The
  stack that \<^verbatim>\<open>Satisfy\<close> leaves in the local vector is copied whenever it is not empty;
  an empty stack element is copied as a null pointer. (The field \<^verbatim>\<open>error_message\<close> of
  \<^verbatim>\<open>SatisfactionResult\<close> is \<open>sat_error_message\<close> in the record, the name being taken by
  \<^verbatim>\<open>MiniscriptResult\<close>.)
\<close>

definition empty_result :: SatisfactionResult where
  "empty_result =
     \<lparr>availability = MINISCRIPT_AVAILABILITY_NO, stack = None, stack_sizes = None,
      stack_count = 0, sat_error_message = None\<rparr>"

definition availability_code :: "Availability \<Rightarrow> int" where
  "availability_code a =
     (if a = YES then MINISCRIPT_AVAILABILITY_YES
      else if a = MAYBE then MINISCRIPT_AVAILABILITY_MAYBE
      else MINISCRIPT_AVAILABILITY_NO)"

definition copy_stack :: "byte list list \<Rightarrow> SatisfactionResult \<Rightarrow> SatisfactionResult" where
  "copy_stack st result =
     (if st \<noteq> [] then
        result\<lparr>stack_count := length st,
               stack := Some (map (\<lambda>e. if e = [] then None else Some e) st),
               stack_sizes := Some (map length st)\<rparr>
      else result)"

definition miniscript_satisfy ::
  "'n miniscript_lib \<Rightarrow> 'n MiniscriptNode option \<Rightarrow> SatisfierCallbacks option \<Rightarrow> bool \<Rightarrow>
     SatisfactionResult" where
  "miniscript_satisfy L n cbs nonmalleable =
     (case n of
        None \<Rightarrow> empty_result\<lparr>sat_error_message := strdup_safe (Some ''Invalid node: null pointer'')\<rparr>
      | Some h \<Rightarrow>
          (case node h of
             None \<Rightarrow>
               empty_result\<lparr>sat_error_message := strdup_safe (Some ''Invalid node: null pointer'')\<rparr>
           | Some t \<Rightarrow>
               (case cbs of
                  None \<Rightarrow>
                    empty_result
                      \<lparr>sat_error_message := strdup_safe (Some ''Invalid callbacks: null pointer'')\<rparr>
                | Some _ \<Rightarrow>
                    (case Satisfy L t \<lparr>callbacks = cbs, ms_ctx = ctx h\<rparr> nonmalleable of
                       Inl (StdException what) \<Rightarrow>
                         empty_result\<lparr>sat_error_message := strdup_safe (Some what)\<rparr>
                     | Inl OtherException \<Rightarrow>
                         empty_result
                           \<lparr>sat_error_message :=
                              strdup_safe (Some ''Unknown error during satisfaction'')\<rparr>
                     | Inr (avail, st) \<Rightarrow>
                         copy_stack st
                           (empty_result\<lparr>availability := availability_code avail\<rparr>)))))"

definition miniscript_satisfaction_result_free ::
  "SatisfactionResult option \<Rightarrow> SatisfactionResult option" where
  "miniscript_satisfaction_result_free result =
     (case result of
        None \<Rightarrow> None
      | Some r \<Rightarrow>
          Some (r\<lparr>stack := None, stack_sizes := None, sat_error_message := None,
                  stack_count := 0\<rparr>))"

definition miniscript_version :: string where
  "miniscript_version = ''0.3.0''"

subsection \<open>A library instance for the tree of one key\<close>

text \<open>
  Modelled from the spec: an instance of the library, which is not part of the wrapper's
  sources, for the trees that are a single \<^verbatim>\<open>pk(K)\<close> leaf. It is used only where a statement
  is evaluated on a concrete tree. The text form is the fragment name with the key in
  parentheses (section 6). The candidate of the leaf asks the provider's \<^verbatim>\<open>Sign\<close> for the key
  and is the one-element stack holding that signature (section 8, concrete scenario 1),
  tagged with the availability of the leaf (section 4.4); a refused leaf has none. The spec
  has no opcode table: the script is the push of the key's bytes and the opcode
  \<^verbatim>\<open>OP_CHECKSIG\<close> that Bitcoin Core writes for this fragment, and the type letters are those
  it computes for it.
\<close>

datatype pk_tree = Pk string

definition OP_CHECKSIG :: byte where
  "OP_CHECKSIG = 0xac"

definition pk_parse :: "string \<Rightarrow> pk_tree option" where
  "pk_parse s =
     (if take 3 s = ''pk('' \<and> 4 \<le> length s \<and> last s = CHR '')''
         \<and> CHR '')'' \<notin> set (butlast (drop 3 s)) \<and> CHR '','' \<notin> set (butlast (drop 3 s))
      then Some (Pk (butlast (drop 3 s))) else None)"

definition pk_script :: "StringKeyContext \<Rightarrow> pk_tree \<Rightarrow> byte list" where
  "pk_script kc t =
     (case t of Pk k \<Rightarrow>
        (let bs = StringKeyContext_ToPKBytes kc \<lparr>str = k\<rparr>
         in of_nat (length bs) # bs @ [OP_CHECKSIG]))"

definition pk_decode :: "StringKeyContext \<Rightarrow> byte list \<Rightarrow> pk_tree option" where
  "pk_decode kc bs =
     (case bs of
        [] \<Rightarrow> None
      | l # rest \<Rightarrow>
          if length rest = unat l + 1 \<and> last rest = OP_CHECKSIG
             \<and> unat l = (if MsContext kc = TAPSCRIPT then 32 else 33)
          then map_option (\<lambda>k. Pk (str k)) (StringKeyContext_FromPKBytes kc (butlast rest))
          else None)"

definition pk_lib :: "pk_tree miniscript_lib" where
  "pk_lib =
     \<lparr>FromString = (\<lambda>s kc. Inr (pk_parse s)),
      FromScript = (\<lambda>bs kc. Inr (pk_decode kc bs)),
      ToString = (\<lambda>t kc. case t of Pk k \<Rightarrow> Inr (Some (''pk('' @ k @ '')''))),
      ToScript = (\<lambda>t kc. Inr (pk_script kc t)),
      IsValid = (\<lambda>t. True),
      GetType = (\<lambda>t. mst ''Bonduesmk''),
      GetWitnessSize = (\<lambda>t. Some 73),
      IsValidTopLevel = (\<lambda>t. True),
      CheckOpsLimit = (\<lambda>t. True),
      CheckStackSize = (\<lambda>t. True),
      CheckDuplicateKey = (\<lambda>t. True),
      GetOps = (\<lambda>t. Some 1),
      GetStackSize = (\<lambda>t. Some 1),
      GetExecStackSize = (\<lambda>t. Some 1),
      ScriptSize = (\<lambda>t. length (pk_script (StringKeyContext P2WSH) t)),
      FindInsaneSub = (\<lambda>t. Inr None),
      ValidSatisfactions = (\<lambda>t. True),
      GetStaticOps = (\<lambda>t. 1),
      root_candidate = (\<lambda>t sat nonmalleable.
                   case t of Pk k \<Rightarrow>
                     (case Sign sat \<lparr>str = k\<rparr> [] of
                        (a, sig) \<Rightarrow> Inr (if a = NO then (NO, []) else (a, [sig]))))\<rparr>"

text \<open>A provider that can estimate but not sign: its callback answers MAYBE with no bytes.\<close>

definition estimating_callbacks :: SatisfierCallbacks where
  "estimating_callbacks =
     \<lparr>sign_callback =
        Some (\<lambda>key_bytes. \<lparr>cb_avail = MINISCRIPT_AVAILABILITY_MAYBE, cb_out = None, cb_len = 0\<rparr>),
      check_after_callback = None, check_older_callback = None,
      sat_sha256_callback = None, sat_ripemd160_callback = None,
      sat_hash256_callback = None, sat_hash160_callback = None\<rparr>"

text \<open>A provider that signs every key with the same three bytes.\<close>

definition signing_callbacks :: SatisfierCallbacks where
  "signing_callbacks =
     \<lparr>sign_callback =
        Some (\<lambda>key_bytes.
                \<lparr>cb_avail = MINISCRIPT_AVAILABILITY_YES, cb_out = Some [0x30, 0x01, 0x02],
                 cb_len = 3\<rparr>),
      check_after_callback = None, check_older_callback = None,
      sat_sha256_callback = None, sat_ripemd160_callback = None,
      sat_hash256_callback = None, sat_hash160_callback = None\<rparr>"

section \<open>The C interface of the descriptor wrapper\<close>

subsection \<open>Chain parameters (\<^verbatim>\<open>stubs.cpp\<close>)\<close>

text \<open>
  The fields of \<^verbatim>\<open>CChainParams\<close> that the three parameter classes of \<^verbatim>\<open>stubs.cpp\<close> set, and
  the process-wide pointer \<^verbatim>\<open>g_current_params\<close> to one of their three instances. The
  global is the one field of the state record that the functions reading or writing it
  take and return.
\<close>

datatype Base58Type = PUBKEY_ADDRESS | SCRIPT_ADDRESS | SECRET_KEY | EXT_PUBLIC_KEY | EXT_SECRET_KEY

record CChainParams =
  bech32_hrp :: string
  base58Prefixes :: "Base58Type \<Rightarrow> byte list"

definition MainnetChainParams :: CChainParams where
  "MainnetChainParams =
     \<lparr>bech32_hrp = ''bc'',
      base58Prefixes = (\<lambda>t. case t of
          PUBKEY_ADDRESS \<Rightarrow> replicate 1 0
        | SCRIPT_ADDRESS \<Rightarrow> replicate 1 5
        | SECRET_KEY \<Rightarrow> replicate 1 128
        | EXT_PUBLIC_KEY \<Rightarrow> [0x04, 0x88, 0xB2, 0x1E]
        | EXT_SECRET_KEY \<Rightarrow> [0x04, 0x88, 0xAD, 0xE4])\<rparr>"

definition TestnetChainParams :: CChainParams where
  "TestnetChainParams =
     \<lparr>bech32_hrp = ''tb'',
      base58Prefixes = (\<lambda>t. case t of
          PUBKEY_ADDRESS \<Rightarrow> replicate 1 111
        | SCRIPT_ADDRESS \<Rightarrow> replicate 1 196
        | SECRET_KEY \<Rightarrow> replicate 1 239
        | EXT_PUBLIC_KEY \<Rightarrow> [0x04, 0x35, 0x87, 0xCF]
        | EXT_SECRET_KEY \<Rightarrow> [0x04, 0x35, 0x83, 0x94])\<rparr>"

definition RegtestChainParams :: CChainParams where
  "RegtestChainParams =
     \<lparr>bech32_hrp = ''bcrt'',
      base58Prefixes = (\<lambda>t. case t of
          PUBKEY_ADDRESS \<Rightarrow> replicate 1 111
        | SCRIPT_ADDRESS \<Rightarrow> replicate 1 196
        | SECRET_KEY \<Rightarrow> replicate 1 239
        | EXT_PUBLIC_KEY \<Rightarrow> [0x04, 0x35, 0x87, 0xCF]
        | EXT_SECRET_KEY \<Rightarrow> [0x04, 0x35, 0x83, 0x94])\<rparr>"

record globals =
  g_current_params :: CChainParams

definition initial_globals :: globals where
  "initial_globals = \<lparr>g_current_params = TestnetChainParams\<rparr>"

definition Params :: "globals \<Rightarrow> CChainParams" where
  "Params g = g_current_params g"

definition SelectParams :: "int \<Rightarrow> globals \<Rightarrow> globals" where
  "SelectParams network g =
     (if network = 0 then g\<lparr>g_current_params := MainnetChainParams\<rparr>
      else if network = 1 \<or> network = 2 then g\<lparr>g_current_params := TestnetChainParams\<rparr>
      else if network = 3 then g\<lparr>g_current_params := RegtestChainParams\<rparr>
      else g\<lparr>g_current_params := MainnetChainParams\<rparr>)"

definition descriptor_select_params :: "int \<Rightarrow> globals \<Rightarrow> globals" where
  "descriptor_select_params network g = SelectParams network g"

definition hexmap :: string where
  "hexmap = ''0123456789abcdef''"

definition HexStr :: "byte list \<Rightarrow> string" where
  "HexStr s = concat (map (\<lambda>c. [hexmap ! unat (drop_bit 4 c), hexmap ! unat (take_bit 4 c)]) s)"

datatype OutputType = LEGACY | P2SH_SEGWIT | BECH32 | BECH32M | UNKNOWN

subsection \<open>The descriptor library behind the wrapper\<close>

text \<open>
  The functions of Bitcoin Core that \<^verbatim>\<open>descriptor_parse_with_network\<close> and
  \<^verbatim>\<open>descriptor_get_address\<close> call, over any representation of a descriptor (\<open>'d\<close>), of a
  signing provider (\<open>'p\<close>) and of a destination (\<open>'dest\<close>). A script is its bytes. The two
  functions that read the chain parameters through the global function \<^verbatim>\<open>Params()\<close>,
  \<^verbatim>\<open>Parse\<close> (for extended keys) and \<^verbatim>\<open>EncodeDestination\<close>, take them as an argument.
  \<^verbatim>\<open>Parse\<close> returns the descriptors with the provider and the error text it has filled in;
  \<^verbatim>\<open>Expand\<close> returns its success with the scripts and the provider it has filled in.
\<close>

record ('d, 'p, 'dest) descriptor_lib =
  Parse :: "string \<Rightarrow> bool \<Rightarrow> CChainParams \<Rightarrow> exn + 'd list \<times> 'p \<times> string"
  Expand :: "'d \<Rightarrow> int \<Rightarrow> 'p \<Rightarrow> exn + bool \<times> byte list list \<times> 'p"
  GetOutputType :: "'d \<Rightarrow> OutputType option"
  ExtractDestination :: "byte list \<Rightarrow> 'dest option"
  IsPayToWitnessScriptHash :: "byte list \<Rightarrow> bool"
  IsWitnessProgram :: "byte list \<Rightarrow> (int \<times> byte list) option"
  WitnessV0ScriptHash :: "byte list \<Rightarrow> 'dest"
  EncodeDestination :: "'dest \<Rightarrow> CChainParams \<Rightarrow> exn + string"

subsection \<open>The exported functions of \<^verbatim>\<open>descriptor_wrapper.cpp\<close> that take a network\<close>

definition DESCRIPTOR_NETWORK_MAINNET :: int where "DESCRIPTOR_NETWORK_MAINNET = 0"
definition DESCRIPTOR_NETWORK_TESTNET :: int where "DESCRIPTOR_NETWORK_TESTNET = 1"
definition DESCRIPTOR_NETWORK_SIGNET :: int where "DESCRIPTOR_NETWORK_SIGNET = 2"
definition DESCRIPTOR_NETWORK_REGTEST :: int where "DESCRIPTOR_NETWORK_REGTEST = 3"

type_synonym DescriptorResult = MiniscriptResult

record ('d, 'p) DescriptorNode =
  descriptor :: "'d option"
  provider :: 'p

text \<open>
  \<^verbatim>\<open>descriptor_parse_with_network\<close> selects the chain parameters of its \<open>network\<close> argument
  and parses under them; the selection stays in the global afterwards. The mutex it holds
  meanwhile has no counterpart in this sequential model.
\<close>

definition descriptor_parse_with_network ::
  "('d, 'p, 'dest) descriptor_lib \<Rightarrow> string option \<Rightarrow> int \<Rightarrow>
     ('d, 'p) DescriptorNode option option \<Rightarrow> globals \<Rightarrow>
     DescriptorResult \<times> ('d, 'p) DescriptorNode option option \<times> globals" where
  "descriptor_parse_with_network D descriptor_str network out_node g =
     (case descriptor_str of
        None \<Rightarrow> (failure ''Invalid arguments: null pointer'', out_node, g)
      | Some desc_str \<Rightarrow>
          (case out_node of
             None \<Rightarrow> (failure ''Invalid arguments: null pointer'', out_node, g)
           | Some _ \<Rightarrow>
               (let g' = SelectParams network g in
                case Parse D desc_str False (Params g') of
                  Inl (StdException what) \<Rightarrow> (failure what, Some None, g')
                | Inl OtherException \<Rightarrow>
                    (failure ''Unknown error during descriptor parsing'', Some None, g')
                | Inr (descriptors, prov, error) \<Rightarrow>
                    (case descriptors of
                       [] \<Rightarrow>
                         (failure (if error = [] then ''Failed to parse descriptor'' else error),
                          Some None, g')
                     | d # _ \<Rightarrow>
                         (\<lparr>success = True, error_message = None\<rparr>,
                          Some (Some \<lparr>descriptor = Some d, provider = prov\<rparr>), g')))))"

text \<open>
  \<^verbatim>\<open>descriptor_get_address\<close>. The destination is the one that \<^verbatim>\<open>ExtractDestination\<close> finds
  or, failing that, the script hash of a version-0 witness program of 32 bytes
  (\<open>destination_of\<close>). The last step is \<^verbatim>\<open>EncodeDestination(dest)\<close>, which encodes
  under the chain parameters that \<^verbatim>\<open>Params()\<close> returns at that moment.
\<close>

definition destination_of :: "('d, 'p, 'dest) descriptor_lib \<Rightarrow> byte list \<Rightarrow> 'dest option" where
  "destination_of D script =
     (case ExtractDestination D script of
        Some dest \<Rightarrow> Some dest
      | None \<Rightarrow>
          if IsPayToWitnessScriptHash D script then
            (case IsWitnessProgram D script of
               Some (version, witprog) \<Rightarrow>
                 if version = 0 \<and> length witprog = 32
                 then Some (WitnessV0ScriptHash D witprog)
                 else None
             | None \<Rightarrow> None)
          else None)"

definition descriptor_get_address ::
  "('d, 'p, 'dest) descriptor_lib \<Rightarrow> globals \<Rightarrow> ('d, 'p) DescriptorNode option \<Rightarrow> int \<Rightarrow> int \<Rightarrow>
     string option" where
  "descriptor_get_address D g n pos network =
     (case n of
        None \<Rightarrow> None
      | Some h \<Rightarrow>
          (case descriptor h of
             None \<Rightarrow> None
           | Some d \<Rightarrow>
               (case Expand D d pos (provider h) of
                  Inl _ \<Rightarrow> None
                | Inr (ok, scripts, out_provider) \<Rightarrow>
                    if \<not> ok then None
                    else
                      (case scripts of
                         [] \<Rightarrow> None
                       | script # _ \<Rightarrow>
                           (case GetOutputType D d of
                              None \<Rightarrow> None
                            | Some output_type \<Rightarrow>
                                (case destination_of D script of
                                   None \<Rightarrow> None
                                 | Some dest \<Rightarrow>
                                     (case EncodeDestination D dest (Params g) of
                                        Inl _ \<Rightarrow> None
                                      | Inr address \<Rightarrow> strdup_safe (Some address))))))))"

subsection \<open>A descriptor library instance for one key hash\<close>

text \<open>
  An instance of the descriptor library for the one descriptor \<^verbatim>\<open>wpkh(K)\<close>, used where a
  statement is evaluated on a concrete descriptor: the descriptor is the 20-byte hash of
  its key, it expands to the version-0 witness program of that hash, and the address is
  written as the human-readable part of the chain parameters, the separator \<^verbatim>\<open>1\<close> and the
  program in hexadecimal. The encoder of Bitcoin Core (bech32, with a checksum) is not part
  of the wrapper's sources; like this one, it starts the address with the human-readable
  part of the parameters it reads.
\<close>

definition wpkh_lib :: "(byte list, unit, byte list) descriptor_lib" where
  "wpkh_lib =
     \<lparr>Parse = (\<lambda>s require_checksum params.
          Inr (if s = ''wpkh(K)'' then ([replicate 20 0x11], (), [])
               else ([], (), ''unknown descriptor''))),
      Expand = (\<lambda>d pos prov. Inr (True, [[0x00, 0x14] @ d], ())),
      GetOutputType = (\<lambda>d. Some BECH32),
      ExtractDestination = (\<lambda>script.
          if length script = 22 \<and> take 2 script = [0x00, 0x14] then Some (drop 2 script)
          else None),
      IsPayToWitnessScriptHash = (\<lambda>script. length script = 34 \<and> take 2 script = [0x00, 0x20]),
      IsWitnessProgram = (\<lambda>script.
          if 4 \<le> length script \<and> hd script = 0x00 then Some (0, drop 2 script) else None),
      WitnessV0ScriptHash = (\<lambda>witprog. witprog),
      EncodeDestination = (\<lambda>dest params. Inr (bech32_hrp params @ ''1'' @ HexStr dest))\<rparr>"

text \<open>The node that parsing \<^verbatim>\<open>wpkh(K)\<close> stores for the caller.\<close>

definition wpkh_node :: "(byte list, unit) DescriptorNode" where
  "wpkh_node = \<lparr>descriptor = Some (replicate 20 0x11), provider = ()\<rparr>"

section \<open>Vocabulary of the properties\<close>

text \<open>
  The outcome of a parser call, as the caller sees it: on success the output slot holds a
  handle whose tree passes \<^verbatim>\<open>IsValid\<close> and no error message is set; on failure the slot
  holds the null pointer and an error message is set.
\<close>

definition valid_or_error ::
  "'n miniscript_lib \<Rightarrow> MiniscriptResult \<times> 'n MiniscriptNode option option \<Rightarrow> bool" where
  "valid_or_error L ro =
     (case ro of (r, out) \<Rightarrow>
        (success r \<longrightarrow>
           (case out of
              Some (Some h) \<Rightarrow> (case node h of Some t \<Rightarrow> IsValid L t | None \<Rightarrow> False)
            | _ \<Rightarrow> False)
           \<and> error_message r = None)
        \<and> (\<not> success r \<longrightarrow> out = Some None \<and> error_message r \<noteq> None))"

text \<open>The callback supplied bytes: a buffer that is not null, of a length that is not 0.\<close>

definition supplied :: "callback_out \<Rightarrow> bool" where
  "supplied r = (cb_out r \<noteq> None \<and> cb_len r > 0)"

definition key_width :: "MiniscriptContext \<Rightarrow> nat" where
  "key_width c = (if c = TAPSCRIPT then 32 else 33)"

text \<open>The value of the C enumeration that selects a context of the library.\<close>

definition context_code :: "MiniscriptContext \<Rightarrow> int" where
  "context_code ms =
     (case ms of P2WSH \<Rightarrow> MINISCRIPT_CONTEXT_WSH | TAPSCRIPT \<Rightarrow> MINISCRIPT_CONTEXT_TAPSCRIPT)"

text \<open>
  The positions at which the loop of \<^verbatim>\<open>CallbackSatisfier::ToPKBytes\<close> calls \<^verbatim>\<open>sscanf\<close> (every
  second index of the key), whether the call returns 1 at each of them, and the bytes it
  stores there.
\<close>

definition hex_positions :: "string \<Rightarrow> nat list" where
  "hex_positions s = map (\<lambda>j. 2 * j) [0..<(length s + 1) div 2]"

definition scans_as_hex :: "string \<Rightarrow> bool" where
  "scans_as_hex s = list_all (\<lambda>i. sscanf_02x (c_str_from s i) \<noteq> None) (hex_positions s)"

definition hex_bytes :: "string \<Rightarrow> byte list" where
  "hex_bytes s = map (\<lambda>i. ucast (the (sscanf_02x (c_str_from s i)))) (hex_positions s)"

text \<open>The positions that are left when the loop is at index \<open>i\<close>.\<close>

definition positions_from :: "string \<Rightarrow> nat \<Rightarrow> nat list" where
  "positions_from s i = map (\<lambda>j. i + 2 * j) [0..<(length s - i + 1) div 2]"

section \<open>Properties of the miniscript wrapper\<close>

subsection \<open>What the two parsers hand back\<close>

lemma from_string_outcome:
  "valid_or_error L (miniscript_from_string L (Some s) c (Some old))"
  unfolding miniscript_from_string_def valid_or_error_def
  by (auto simp: failure_def strdup_safe_def split: option.split sum.split exn.split)

lemma from_script_outcome:
  "valid_or_error L (miniscript_from_script L (Some bs) c (Some old))"
  unfolding miniscript_from_script_def valid_or_error_def
  by (auto simp: failure_def strdup_safe_def split: option.split sum.split exn.split)

lemma pk_parse_A: "pk_parse ''pk(A)'' = Some (Pk ''A'')"
  by (simp add: pk_parse_def)

lemma pk_parse_open: "pk_parse ''pk(A'' = None"
  by (simp add: pk_parse_def)

text \<open>
  C1: for every input string (or script) and every context value, whatever the library
  answers or throws: if \<^verbatim>\<open>miniscript_from_string\<close> (or \<^verbatim>\<open>miniscript_from_script\<close>) returns
  success, the node stored in \<^verbatim>\<open>*out_node\<close> satisfies \<^verbatim>\<open>IsValid\<close>; if it returns failure,
  \<^verbatim>\<open>*out_node\<close> is null, \<^verbatim>\<open>success\<close> is false and an error message is set.
\<close>

theorem parsers_return_valid_tree_or_error:
  "valid_or_error L (miniscript_from_string L (Some s) c (Some old))
   \<and> valid_or_error L (miniscript_from_script L (Some bs) c' (Some old'))"
  by (simp add: from_string_outcome from_script_outcome)

theorem parsers_return_valid_tree_or_error_witness:
  "success (fst (miniscript_from_string pk_lib (Some ''pk(A)'') MINISCRIPT_CONTEXT_WSH (Some None)))
   \<and> miniscript_is_valid pk_lib
        (the (snd (miniscript_from_string pk_lib (Some ''pk(A)'') MINISCRIPT_CONTEXT_WSH (Some None))))
   \<and> \<not> success (fst (miniscript_from_string pk_lib (Some ''pk(A'') MINISCRIPT_CONTEXT_WSH (Some None)))
   \<and> snd (miniscript_from_string pk_lib (Some ''pk(A'') MINISCRIPT_CONTEXT_WSH (Some None)) = Some None
   \<and> error_message (fst (miniscript_from_string pk_lib (Some ''pk(A'') MINISCRIPT_CONTEXT_WSH (Some None)))
       = Some ''Failed to parse miniscript''
   \<and> \<not> success (fst (miniscript_from_script pk_lib (Some [0x51]) 7 (Some None)))
   \<and> snd (miniscript_from_script pk_lib (Some [0x51]) 7 (Some None)) = Some None
   \<and> error_message (fst (miniscript_from_script pk_lib (Some [0x51]) 7 (Some None)))
       = Some ''Invalid context''"
  using parsers_return_valid_tree_or_error
          [where L = pk_lib and s = "''pk(A)''" and c = MINISCRIPT_CONTEXT_WSH and old = None
             and bs = "[0x51]" and c' = 7 and old' = None]
        parsers_return_valid_tree_or_error
          [where L = pk_lib and s = "''pk(A''" and c = MINISCRIPT_CONTEXT_WSH and old = None
             and bs = "[0x51]" and c' = 7 and old' = None]
  by (simp add: valid_or_error_def miniscript_from_string_def miniscript_from_script_def
        miniscript_is_valid_def tree_of_def switch_ctx_def MINISCRIPT_CONTEXT_WSH_def
        MINISCRIPT_CONTEXT_TAPSCRIPT_def pk_lib_def pk_parse_A pk_parse_open failure_def
        strdup_safe_def)

subsection \<open>The stubbed search for an insane sub-expression\<close>

text \<open>
  C9: \<^verbatim>\<open>miniscript_find_insane_sub\<close> returns null for every input node, whatever the
  library's \<^verbatim>\<open>FindInsaneSub\<close> answers: also when it has located an insane sub-expression.
\<close>

theorem miniscript_find_insane_sub_null: "miniscript_find_insane_sub L n = None"
  unfolding miniscript_find_insane_sub_def
  by (simp split: option.split sum.split)

subsection \<open>The stack that accompanies a satisfaction result\<close>

text \<open>
  The wrapper has no gate of its own: when \<^verbatim>\<open>Satisfy\<close> returns, it reports the availability
  and copies the stack that \<^verbatim>\<open>Satisfy\<close> left, whatever the availability is.
\<close>

lemma miniscript_satisfy_copies_stack:
  assumes "node h = Some t"
    and "Satisfy L t \<lparr>callbacks = Some cbs, ms_ctx = ctx h\<rparr> nonmalleable = Inr (a, st)"
  shows "availability (miniscript_satisfy L (Some h) (Some cbs) nonmalleable) = availability_code a
    \<and> stack_count (miniscript_satisfy L (Some h) (Some cbs) nonmalleable) = length st
    \<and> stack (miniscript_satisfy L (Some h) (Some cbs) nonmalleable)
        = (if st = [] then None else Some (map (\<lambda>e. if e = [] then None else Some e) st))
    \<and> stack_sizes (miniscript_satisfy L (Some h) (Some cbs) nonmalleable)
        = (if st = [] then None else Some (map length st))
    \<and> sat_error_message (miniscript_satisfy L (Some h) (Some cbs) nonmalleable) = None"
  using assms
  by (simp add: miniscript_satisfy_def copy_stack_def empty_result_def)

lemma pk_estimate:
  "miniscript_satisfy pk_lib (Some \<lparr>node = Some (Pk ''A''), ctx = P2WSH\<rparr>)
       (Some estimating_callbacks) True
   = empty_result\<lparr>availability := MINISCRIPT_AVAILABILITY_MAYBE\<rparr>"
  by (simp add: miniscript_satisfy_def Satisfy_def pk_lib_def Sign_def estimating_callbacks_def
        copy_stack_def availability_code_def resize_def
        MINISCRIPT_AVAILABILITY_MAYBE_def MINISCRIPT_AVAILABILITY_YES_def)

lemma pk_signed:
  "miniscript_satisfy pk_lib (Some \<lparr>node = Some (Pk ''A''), ctx = P2WSH\<rparr>)
       (Some signing_callbacks) True
   = empty_result\<lparr>availability := MINISCRIPT_AVAILABILITY_YES, stack_count := 1,
        stack := Some [Some [0x30, 0x01, 0x02]], stack_sizes := Some [3]\<rparr>"
  by (simp add: miniscript_satisfy_def Satisfy_def pk_lib_def Sign_def signing_callbacks_def
        copy_stack_def availability_code_def assign_def
        MINISCRIPT_AVAILABILITY_YES_def)

text \<open>
  C2: for every node and every callback table, with the top-level \<^verbatim>\<open>Satisfy\<close> of section
  4.4 of the spec: if \<^verbatim>\<open>miniscript_satisfy\<close> returns with availability MAYBE, the result
  carries no witness stack (\<^verbatim>\<open>stack\<close> and \<^verbatim>\<open>stack_sizes\<close> are null and \<^verbatim>\<open>stack_count\<close> is 0);
  a result that carries a stack has availability YES.
\<close>

theorem estimated_result_has_no_stack:
  "(availability (miniscript_satisfy L n cbs nonmalleable) = MINISCRIPT_AVAILABILITY_MAYBE \<longrightarrow>
      stack (miniscript_satisfy L n cbs nonmalleable) = None
      \<and> stack_sizes (miniscript_satisfy L n cbs nonmalleable) = None
      \<and> stack_count (miniscript_satisfy L n cbs nonmalleable) = 0)
   \<and> (stack (miniscript_satisfy L n cbs nonmalleable) \<noteq> None \<longrightarrow>
      availability (miniscript_satisfy L n cbs nonmalleable) = MINISCRIPT_AVAILABILITY_YES)"
  by (auto simp: miniscript_satisfy_def Satisfy_def copy_stack_def empty_result_def
        availability_code_def MINISCRIPT_AVAILABILITY_NO_def MINISCRIPT_AVAILABILITY_YES_def
        MINISCRIPT_AVAILABILITY_MAYBE_def
      split: option.splits sum.splits exn.splits prod.splits if_splits)

theorem estimated_result_has_no_stack_witness:
  "availability (miniscript_satisfy pk_lib (Some \<lparr>node = Some (Pk ''A''), ctx = P2WSH\<rparr>)
       (Some estimating_callbacks) True) = MINISCRIPT_AVAILABILITY_MAYBE
   \<and> stack (miniscript_satisfy pk_lib (Some \<lparr>node = Some (Pk ''A''), ctx = P2WSH\<rparr>)
       (Some estimating_callbacks) True) = None
   \<and> stack_count (miniscript_satisfy pk_lib (Some \<lparr>node = Some (Pk ''A''), ctx = P2WSH\<rparr>)
       (Some estimating_callbacks) True) = 0
   \<and> stack (miniscript_satisfy pk_lib (Some \<lparr>node = Some (Pk ''A''), ctx = P2WSH\<rparr>)
       (Some signing_callbacks) True) = Some [Some [0x30, 0x01, 0x02]]
   \<and> availability (miniscript_satisfy pk_lib (Some \<lparr>node = Some (Pk ''A''), ctx = P2WSH\<rparr>)
       (Some signing_callbacks) True) = MINISCRIPT_AVAILABILITY_YES"
  using estimated_result_has_no_stack
          [where L = pk_lib and n = "Some \<lparr>node = Some (Pk ''A''), ctx = P2WSH\<rparr>"
             and cbs = "Some estimating_callbacks" and nonmalleable = True]
        estimated_result_has_no_stack
          [where L = pk_lib and n = "Some \<lparr>node = Some (Pk ''A''), ctx = P2WSH\<rparr>"
             and cbs = "Some signing_callbacks" and nonmalleable = True]
  by (simp add: pk_estimate pk_signed empty_result_def)

subsection \<open>Where signature bytes come from\<close>

text \<open>
  C7 (as stated): every signature comes from the sign callback and none is fabricated.
  When the callback answers MAYBE and supplies no bytes, \<^verbatim>\<open>Sign\<close> makes up a signature of
  72 bytes \<open>0x30\<close>.
\<close>

theorem Sign_fabricates_placeholder:
  "Sign \<lparr>callbacks = Some estimating_callbacks, ms_ctx = P2WSH\<rparr> \<lparr>str = ''A''\<rparr> []
     = (MAYBE, replicate 72 0x30)
   \<and> cb_out (the (sign_callback estimating_callbacks)
        (CallbackSatisfier_ToPKBytes \<lparr>callbacks = Some estimating_callbacks, ms_ctx = P2WSH\<rparr>
           \<lparr>str = ''A''\<rparr>)) = None"
  by (simp add: Sign_def estimating_callbacks_def resize_def
        MINISCRIPT_AVAILABILITY_MAYBE_def MINISCRIPT_AVAILABILITY_YES_def)

text \<open>
  C7 (amended): a signature that \<^verbatim>\<open>Sign\<close> reports as available (YES) is exactly the bytes
  that the sign callback supplied, and so is one reported as MAYBE when the callback
  supplied bytes; when \<^verbatim>\<open>Sign\<close> reports NO, the signature vector is left as it was. Only
  for a MAYBE answer without bytes does \<^verbatim>\<open>Sign\<close> fill in a placeholder: the vector cut or
  filled up to 72 bytes with \<open>0x30\<close>, for size estimation.
\<close>

theorem Sign_signature_origin:
  assumes "callbacks sat = Some cbs" and "sign_callback cbs = Some cb"
    and "r = cb (CallbackSatisfier_ToPKBytes sat key)"
  shows "(fst (Sign sat key sig) = YES \<longrightarrow>
            cb_avail r = MINISCRIPT_AVAILABILITY_YES \<and> supplied r
            \<and> snd (Sign sat key sig) = take (cb_len r) (the (cb_out r)))
       \<and> (fst (Sign sat key sig) = MAYBE \<and> supplied r \<longrightarrow>
            snd (Sign sat key sig) = take (cb_len r) (the (cb_out r)))
       \<and> (fst (Sign sat key sig) = MAYBE \<and> \<not> supplied r \<longrightarrow>
            snd (Sign sat key sig) = take 72 sig @ replicate (72 - length sig) 0x30)
       \<and> (fst (Sign sat key sig) = NO \<longrightarrow> snd (Sign sat key sig) = sig)"
  using assms
  by (auto simp: Sign_def Let_def supplied_def assign_def resize_def)

theorem Sign_signature_origin_witness:
  "fst (Sign \<lparr>callbacks = Some signing_callbacks, ms_ctx = P2WSH\<rparr> \<lparr>str = ''A''\<rparr> []) = YES
   \<and> snd (Sign \<lparr>callbacks = Some signing_callbacks, ms_ctx = P2WSH\<rparr> \<lparr>str = ''A''\<rparr> [])
       = [0x30, 0x01, 0x02]
   \<and> fst (Sign \<lparr>callbacks = Some estimating_callbacks, ms_ctx = TAPSCRIPT\<rparr> \<lparr>str = ''A''\<rparr> [0x01])
       = MAYBE
   \<and> snd (Sign \<lparr>callbacks = Some estimating_callbacks, ms_ctx = TAPSCRIPT\<rparr> \<lparr>str = ''A''\<rparr> [0x01])
       = 0x01 # replicate 71 0x30"
  using Sign_signature_origin
          [where sat = "\<lparr>callbacks = Some signing_callbacks, ms_ctx = P2WSH\<rparr>"
             and cbs = signing_callbacks and key = "\<lparr>str = ''A''\<rparr>" and sig = "[]"
             and cb = "the (sign_callback signing_callbacks)",
           OF _ _ refl]
        Sign_signature_origin
          [where sat = "\<lparr>callbacks = Some estimating_callbacks, ms_ctx = TAPSCRIPT\<rparr>"
             and cbs = estimating_callbacks and key = "\<lparr>str = ''A''\<rparr>" and sig = "[0x01]"
             and cb = "the (sign_callback estimating_callbacks)",
           OF _ _ refl]
  by (simp add: Sign_def signing_callbacks_def estimating_callbacks_def supplied_def
        assign_def resize_def MINISCRIPT_AVAILABILITY_YES_def MINISCRIPT_AVAILABILITY_MAYBE_def)

lemma Sign_without_callback:
  "callbacks sat = None \<or> (\<exists>cbs. callbacks sat = Some cbs \<and> sign_callback cbs = None)
   \<Longrightarrow> Sign sat key sig = (NO, sig)"
  by (auto simp: Sign_def)

subsection \<open>The width of a serialized key\<close>

lemma positions_from_step:
  "i < length s \<Longrightarrow> positions_from s i = i # positions_from s (i + 2)"
proof -
  assume less: "i < length s"
  then have count: "(length s - i + 1) div 2 = Suc ((length s - (i + 2) + 1) div 2)"
    by (cases "length s - i = 1") (auto simp: Suc_diff_Suc)
  show ?thesis
    unfolding positions_from_def count
    by (simp add: upt_conv_Cons map_Suc_upt [symmetric] del: upt_Suc)
qed

lemma positions_from_end: "\<not> i < length s \<Longrightarrow> positions_from s i = []"
  by (simp add: positions_from_def)

lemma ToPKBytes_loop_eq:
  "ToPKBytes_loop c s i result =
     (if list_all (\<lambda>p. sscanf_02x (c_str_from s p) \<noteq> None) (positions_from s i)
      then result @ map (\<lambda>p. ucast (the (sscanf_02x (c_str_from s p)))) (positions_from s i)
      else placeholder_key c)"
proof (induction c s i result rule: ToPKBytes_loop.induct)
  case (1 c s i result)
  show ?case
  proof (cases "i < length s")
    case False
    then show ?thesis
      by (simp add: ToPKBytes_loop.simps positions_from_end)
  next
    case True
    show ?thesis
    proof (cases "sscanf_02x (c_str_from s i)")
      case None
      with True show ?thesis
        by (simp add: ToPKBytes_loop.simps positions_from_step)
    next
      case (Some b)
      have "ToPKBytes_loop c s i result = ToPKBytes_loop c s (i + 2) (result @ [ucast b])"
        using True Some by (simp add: ToPKBytes_loop.simps)
      with "1.IH" [OF True Some] True Some show ?thesis
        by (simp add: positions_from_step)
    qed
  qed
qed

lemma positions_from_0: "positions_from s 0 = hex_positions s"
  by (simp add: positions_from_def hex_positions_def)

lemma ToPKBytes_loop_from_start:
  "ToPKBytes_loop c s 0 [] = (if scans_as_hex s then hex_bytes s else placeholder_key c)"
  using ToPKBytes_loop_eq [of c s 0 "[]"]
  unfolding positions_from_0 scans_as_hex_def hex_bytes_def
  by simp

lemma length_hex_bytes: "length (hex_bytes s) = (length s + 1) div 2"
  by (simp add: hex_bytes_def hex_positions_def)

lemma length_placeholder_key: "length (placeholder_key c) = key_width c"
  by (simp add: placeholder_key_def key_width_def)

lemma scans_abcd: "scans_as_hex ''abcd''" 
  by (simp add: scans_as_hex_def hex_positions_def sscanf_02x_def c_str_from_def isspace_def xdigit_def upt_rec)
lemma bytes_abcd: "hex_bytes ''abcd'' = [0xab, 0xcd]"
  by (simp add: hex_bytes_def hex_positions_def sscanf_02x_def c_str_from_def isspace_def xdigit_def upt_rec)
lemma scans_zz: "\<not> scans_as_hex ''zz''" 
  by (simp add: scans_as_hex_def hex_positions_def sscanf_02x_def c_str_from_def isspace_def xdigit_def upt_rec)

text \<open>
  C6 (as stated): every key serializes to 33 bytes in the P2WSH context. The satisfier's
  \<^verbatim>\<open>ToPKBytes\<close> reads a key that scans as hexadecimal as its bytes: the key \<^verbatim>\<open>abcd\<close> gives
  two bytes.
\<close>

theorem CallbackSatisfier_ToPKBytes_hex:
  "CallbackSatisfier_ToPKBytes \<lparr>callbacks = None, ms_ctx = P2WSH\<rparr> \<lparr>str = ''abcd''\<rparr>
     = [0xab, 0xcd]"
  by (simp add: CallbackSatisfier_ToPKBytes_def ToPKBytes_loop.simps sscanf_02x_def
        c_str_from_def isspace_def xdigit_def)

text \<open>
  C6 (amended): \<^verbatim>\<open>StringKeyContext::ToPKBytes\<close> yields, for every key, exactly the width of
  the context: 33 bytes for P2WSH and 32 for Tapscript. \<^verbatim>\<open>CallbackSatisfier::ToPKBytes\<close>
  yields the zero placeholder of that same width when the key is shorter than two
  characters or \<^verbatim>\<open>sscanf\<close> does not return 1 at one of its even positions; otherwise it
  yields the bytes scanned at those positions, one for every two characters of the key
  (half its length, rounded up).
\<close>

theorem ToPKBytes_widths:
  "length (StringKeyContext_ToPKBytes kc key) = key_width (MsContext kc)
   \<and> CallbackSatisfier_ToPKBytes sat key' =
       (if 2 \<le> length (str key') \<and> scans_as_hex (str key') then hex_bytes (str key')
        else placeholder_key (ms_ctx sat))
   \<and> length (hex_bytes (str key')) = (length (str key') + 1) div 2
   \<and> length (placeholder_key (ms_ctx sat)) = key_width (ms_ctx sat)"
proof -
  have fixed: "length (StringKeyContext_ToPKBytes kc key) = key_width (MsContext kc)"
    by (simp add: StringKeyContext_ToPKBytes_def key_width_def)
  have decoded: "CallbackSatisfier_ToPKBytes sat key' =
       (if 2 \<le> length (str key') \<and> scans_as_hex (str key') then hex_bytes (str key')
        else placeholder_key (ms_ctx sat))"
    by (simp add: CallbackSatisfier_ToPKBytes_def ToPKBytes_loop_from_start)
  show ?thesis
    using fixed decoded length_hex_bytes length_placeholder_key by blast
qed

theorem ToPKBytes_widths_witness:
  "CallbackSatisfier_ToPKBytes \<lparr>callbacks = None, ms_ctx = TAPSCRIPT\<rparr> \<lparr>str = ''abcd''\<rparr> = [0xab, 0xcd]
   \<and> CallbackSatisfier_ToPKBytes \<lparr>callbacks = None, ms_ctx = TAPSCRIPT\<rparr> \<lparr>str = ''zz''\<rparr> = replicate 32 0
   \<and> length (StringKeyContext_ToPKBytes (StringKeyContext TAPSCRIPT) \<lparr>str = ''abcd''\<rparr>) = 32"
  using ToPKBytes_widths [where sat = "\<lparr>callbacks = None, ms_ctx = TAPSCRIPT\<rparr>" and key' = "\<lparr>str = ''abcd''\<rparr>"
           and kc = "StringKeyContext TAPSCRIPT" and key = "\<lparr>str = ''abcd''\<rparr>"]
     ToPKBytes_widths [where sat = "\<lparr>callbacks = None, ms_ctx = TAPSCRIPT\<rparr>" and key' = "\<lparr>str = ''zz''\<rparr>"
           and kc = "StringKeyContext TAPSCRIPT" and key = "\<lparr>str = ''abcd''\<rparr>"]
  by (simp add: scans_abcd bytes_abcd scans_zz placeholder_key_def key_width_def)

subsection \<open>Round trips pass through the wrapper\<close>

text \<open>
  Serializing and parsing are the library's work; the wrapper forwards to it with the
  context stored in the handle, and checks \<^verbatim>\<open>IsValid\<close> after parsing. The two lemmas say
  what the wrapper contributes: where the library round-trips on a tree, so do the wrapper
  functions. Whether the library round-trips is not decided by the wrapper's sources.
\<close>

lemma switch_ctx_code: "switch_ctx (context_code ms) = Some ms"
  by (cases ms) (simp_all add: switch_ctx_def context_code_def MINISCRIPT_CONTEXT_WSH_def
      MINISCRIPT_CONTEXT_TAPSCRIPT_def)

lemma script_round_trip_reduces_to_library:
  assumes "ToScript L t (StringKeyContext ms) = Inr bs"
    and "FromScript L bs (StringKeyContext ms) = Inr (Some t')"
    and "IsValid L t'"
    and "ToScript L t' (StringKeyContext ms) = Inr bs"
  shows "miniscript_to_script L (Some \<lparr>node = Some t, ctx = ms\<rparr>) (Some a) (Some b)
           = (True, Some (Some bs), Some (length bs))
       \<and> miniscript_from_script L (Some bs) (context_code ms) (Some old)
           = (\<lparr>success = True, error_message = None\<rparr>, Some (Some \<lparr>node = Some t', ctx = ms\<rparr>))
       \<and> miniscript_to_script L (Some \<lparr>node = Some t', ctx = ms\<rparr>) (Some a) (Some b)
           = (True, Some (Some bs), Some (length bs))"
  using assms
  by (simp add: miniscript_to_script_def miniscript_from_script_def switch_ctx_code)

lemma text_round_trip_reduces_to_library:
  assumes "FromString L s (StringKeyContext ms) = Inr (Some t)"
    and "IsValid L t"
    and "ToString L t (StringKeyContext ms) = Inr (Some s')"
    and "CHR 0x00 \<notin> set s'"
    and "FromString L s' (StringKeyContext ms) = Inr (Some t)"
  shows "miniscript_from_string L (Some s) (context_code ms) (Some old)
           = (\<lparr>success = True, error_message = None\<rparr>, Some (Some \<lparr>node = Some t, ctx = ms\<rparr>))
       \<and> miniscript_to_string L (Some \<lparr>node = Some t, ctx = ms\<rparr>) = Some s'
       \<and> miniscript_from_string L (Some s') (context_code ms) (Some old)
           = (\<lparr>success = True, error_message = None\<rparr>, Some (Some \<lparr>node = Some t, ctx = ms\<rparr>))"
  using assms
  by (auto simp: miniscript_from_string_def miniscript_to_string_def switch_ctx_code
      strdup_safe_def takeWhile_eq_all_conv)

subsection \<open>Sanity and its components\<close>

text \<open>
  C5: for every node, if \<^verbatim>\<open>miniscript_is_sane\<close> returns true then \<^verbatim>\<open>miniscript_is_valid\<close>,
  \<^verbatim>\<open>miniscript_is_non_malleable\<close> and \<^verbatim>\<open>miniscript_check_duplicate_key\<close> return true and
  \<^verbatim>\<open>miniscript_has_timelock_mix\<close> returns false.
\<close>

theorem sane_implies_components:
  assumes "miniscript_is_sane L n"
  shows "miniscript_is_valid L n \<and> miniscript_is_non_malleable L n
       \<and> miniscript_check_duplicate_key L n \<and> \<not> miniscript_has_timelock_mix L n"
  using assms
  by (auto simp: miniscript_is_sane_def miniscript_is_valid_def miniscript_is_non_malleable_def
        miniscript_check_duplicate_key_def miniscript_has_timelock_mix_def IsSane_def
        split: option.splits)

lemma pk_tree_sane:
  "miniscript_is_sane pk_lib (Some \<lparr>node = Some (Pk ''A''), ctx = P2WSH\<rparr>)"
  by (simp add: miniscript_is_sane_def tree_of_def IsSane_def IsNonMalleable_def pk_lib_def
        has_props_def mst_def)

theorem sane_implies_components_witness:
  "miniscript_is_sane pk_lib (Some \<lparr>node = Some (Pk ''A''), ctx = P2WSH\<rparr>)
   \<and> miniscript_is_valid pk_lib (Some \<lparr>node = Some (Pk ''A''), ctx = P2WSH\<rparr>)
   \<and> miniscript_is_non_malleable pk_lib (Some \<lparr>node = Some (Pk ''A''), ctx = P2WSH\<rparr>)
   \<and> miniscript_check_duplicate_key pk_lib (Some \<lparr>node = Some (Pk ''A''), ctx = P2WSH\<rparr>)
   \<and> \<not> miniscript_has_timelock_mix pk_lib (Some \<lparr>node = Some (Pk ''A''), ctx = P2WSH\<rparr>)"
  using sane_implies_components [OF pk_tree_sane] pk_tree_sane
  by simp

section \<open>Properties of the descriptor wrapper\<close>

subsection \<open>The network of a call and the selected chain parameters\<close>

lemma descriptor_parse_selects_network:
  "snd (snd (descriptor_parse_with_network D (Some s) network (Some old) g))
     = SelectParams network g"
  by (simp add: descriptor_parse_with_network_def Let_def
        split: sum.split exn.split list.split prod.split)

lemma SelectParams_overwrites: "SelectParams network g = SelectParams network g'"
  by (cases g, cases g') (simp add: SelectParams_def)

lemma descriptor_parse_with_network_explicit:
  "descriptor_parse_with_network D (Some s) network (Some old) g
     = descriptor_parse_with_network D (Some s) network (Some old) g'"
  using SelectParams_overwrites [of network g g']
  by (simp add: descriptor_parse_with_network_def)

lemma descriptor_get_address_ignores_network:
  "descriptor_get_address D g n pos network = descriptor_get_address D g n pos network'"
  by (simp add: descriptor_get_address_def)

lemma HexStr_hash: "HexStr (replicate 20 0x11) = ''1111111111111111111111111111111111111111''"
  by code_simp

text \<open>
  C8 (at the failing input): the claim has the address depend on the network argument of
  the call alone. \<^verbatim>\<open>descriptor_get_address\<close> never reads that argument and encodes under
  the chain parameters selected last: after a parse under testnet, the call for mainnet
  returns the address with the testnet prefix \<^verbatim>\<open>tb\<close>, and the same call after a parse under
  mainnet returns the one with \<^verbatim>\<open>bc\<close>.
\<close>

theorem descriptor_get_address_reads_global:
  "descriptor_get_address wpkh_lib
      (snd (snd (descriptor_parse_with_network wpkh_lib (Some ''wpkh(K)'')
                   DESCRIPTOR_NETWORK_TESTNET (Some None) initial_globals)))
      (Some wpkh_node) 0 DESCRIPTOR_NETWORK_MAINNET
     = Some ''tb11111111111111111111111111111111111111111''
   \<and> descriptor_get_address wpkh_lib
      (snd (snd (descriptor_parse_with_network wpkh_lib (Some ''wpkh(K)'')
                   DESCRIPTOR_NETWORK_MAINNET (Some None) initial_globals)))
      (Some wpkh_node) 0 DESCRIPTOR_NETWORK_MAINNET
     = Some ''bc11111111111111111111111111111111111111111''"
  by (simp add: descriptor_parse_with_network_def descriptor_get_address_def wpkh_lib_def
        wpkh_node_def SelectParams_def DESCRIPTOR_NETWORK_TESTNET_def
        DESCRIPTOR_NETWORK_MAINNET_def destination_of_def Params_def TestnetChainParams_def
        MainnetChainParams_def HexStr_hash strdup_safe_def)

lemma descriptor_null_arguments:
  "descriptor_parse_with_network D None network out_node g
     = (failure ''Invalid arguments: null pointer'', out_node, g)"
  "descriptor_parse_with_network D descriptor_str network None g
     = (failure ''Invalid arguments: null pointer'', None, g)"
  "descriptor_get_address D g None pos network = None"
  "descriptor_get_address D g (Some \<lparr>descriptor = None, provider = p\<rparr>) pos network = None"
  by (simp_all add: descriptor_parse_with_network_def descriptor_get_address_def
      split: option.split)

section \<open>Null arguments\<close>

text \<open>
  C10: every exported function of the miniscript wrapper that takes a node or output
  pointers answers a null node, a node whose inner tree is null (\<open>tree_of n = None\<close> covers
  both) and a null output pointer with false, null or a result that bears an error
  message and no stack, and returns every output slot with the content it had. The
  library functions take a tree, never a null pointer, so a call on a null node is not an
  expression of the model. Here \<open>n\<close> is a node without a tree and \<open>m\<close> any node.
\<close>

theorem null_arguments_rejected:
  assumes "tree_of n = None"
  shows "miniscript_from_string L None c out_node
           = (failure ''Invalid arguments: null pointer'', out_node)
       \<and> miniscript_from_string L input c None
           = (failure ''Invalid arguments: null pointer'', None)
       \<and> miniscript_from_script L None c out_node
           = (failure ''Invalid arguments: null pointer'', out_node)
       \<and> miniscript_from_script L script c None
           = (failure ''Invalid arguments: null pointer'', None)
       \<and> miniscript_to_string L n = None
       \<and> miniscript_to_script L n out_script out_len = (False, out_script, out_len)
       \<and> miniscript_to_script L m None out_len = (False, None, out_len)
       \<and> miniscript_to_script L m out_script None = (False, out_script, None)
       \<and> miniscript_is_valid L n = False
       \<and> miniscript_is_sane L n = False
       \<and> miniscript_get_type L n = None
       \<and> miniscript_max_satisfaction_size L n out_size = (False, out_size)
       \<and> miniscript_max_satisfaction_size L m None = (False, None)
       \<and> miniscript_is_non_malleable L n = False
       \<and> miniscript_needs_signature L n = False
       \<and> miniscript_has_timelock_mix L n = False
       \<and> miniscript_is_valid_top_level L n = False
       \<and> miniscript_check_ops_limit L n = False
       \<and> miniscript_check_stack_size L n = False
       \<and> miniscript_check_duplicate_key L n = False
       \<and> miniscript_get_ops L n out_ops = (False, out_ops)
       \<and> miniscript_get_ops L m None = (False, None)
       \<and> miniscript_get_stack_size L n out_ops = (False, out_ops)
       \<and> miniscript_get_stack_size L m None = (False, None)
       \<and> miniscript_get_exec_stack_size L n out_ops = (False, out_ops)
       \<and> miniscript_get_exec_stack_size L m None = (False, None)
       \<and> miniscript_get_script_size L n out_size = (False, out_size)
       \<and> miniscript_get_script_size L m None = (False, None)
       \<and> miniscript_find_insane_sub L n = None
       \<and> miniscript_valid_satisfactions L n = False
       \<and> miniscript_get_static_ops L n out_ops = (False, out_ops)
       \<and> miniscript_get_static_ops L m None = (False, None)
       \<and> miniscript_satisfy L n cbs nonmalleable
           = empty_result\<lparr>sat_error_message := Some ''Invalid node: null pointer''\<rparr>
       \<and> availability (miniscript_satisfy L m None nonmalleable) = MINISCRIPT_AVAILABILITY_NO
       \<and> stack (miniscript_satisfy L m None nonmalleable) = None
       \<and> stack_sizes (miniscript_satisfy L m None nonmalleable) = None
       \<and> stack_count (miniscript_satisfy L m None nonmalleable) = 0
       \<and> sat_error_message (miniscript_satisfy L m None nonmalleable) \<noteq> None
       \<and> miniscript_satisfaction_result_free None = None"
proof -
  have parsers:
    "miniscript_from_string L None c out_node
       = (failure ''Invalid arguments: null pointer'', out_node)"
    "miniscript_from_string L input c None
       = (failure ''Invalid arguments: null pointer'', None)"
    "miniscript_from_script L None c out_node
       = (failure ''Invalid arguments: null pointer'', out_node)"
    "miniscript_from_script L script c None
       = (failure ''Invalid arguments: null pointer'', None)"
    by (simp_all add: miniscript_from_string_def miniscript_from_script_def split: option.split)
  have printers:
    "miniscript_to_string L n = None"
    "miniscript_to_script L n out_script out_len = (False, out_script, out_len)"
    "miniscript_to_script L m None out_len = (False, None, out_len)"
    "miniscript_to_script L m out_script None = (False, out_script, None)"
    using assms
    by (auto simp: miniscript_to_string_def miniscript_to_script_def tree_of_def
        split: option.splits)
  have queries:
    "miniscript_is_valid L n = False"
    "miniscript_is_sane L n = False"
    "miniscript_get_type L n = None"
    "miniscript_is_non_malleable L n = False"
    "miniscript_needs_signature L n = False"
    "miniscript_has_timelock_mix L n = False"
    "miniscript_is_valid_top_level L n = False"
    "miniscript_check_ops_limit L n = False"
    "miniscript_check_stack_size L n = False"
    "miniscript_check_duplicate_key L n = False"
    "miniscript_find_insane_sub L n = None"
    "miniscript_valid_satisfactions L n = False"
    using assms
    by (simp_all add: miniscript_is_valid_def miniscript_is_sane_def miniscript_get_type_def
        miniscript_is_non_malleable_def miniscript_needs_signature_def
        miniscript_has_timelock_mix_def miniscript_is_valid_top_level_def
        miniscript_check_ops_limit_def miniscript_check_stack_size_def
        miniscript_check_duplicate_key_def miniscript_find_insane_sub_def
        miniscript_valid_satisfactions_def)
  have slots_node:
    "miniscript_max_satisfaction_size L n out_size = (False, out_size)"
    "miniscript_get_ops L n out_ops = (False, out_ops)"
    "miniscript_get_stack_size L n out_ops = (False, out_ops)"
    "miniscript_get_exec_stack_size L n out_ops = (False, out_ops)"
    "miniscript_get_script_size L n out_size = (False, out_size)"
    "miniscript_get_static_ops L n out_ops = (False, out_ops)"
    using assms
    by (simp_all add: miniscript_max_satisfaction_size_def miniscript_get_ops_def
        miniscript_get_stack_size_def miniscript_get_exec_stack_size_def
        miniscript_get_script_size_def miniscript_get_static_ops_def)
  have slots_null:
    "miniscript_max_satisfaction_size L m None = (False, None)"
    "miniscript_get_ops L m None = (False, None)"
    "miniscript_get_stack_size L m None = (False, None)"
    "miniscript_get_exec_stack_size L m None = (False, None)"
    "miniscript_get_script_size L m None = (False, None)"
    "miniscript_get_static_ops L m None = (False, None)"
    by (simp_all add: miniscript_max_satisfaction_size_def miniscript_get_ops_def
        miniscript_get_stack_size_def miniscript_get_exec_stack_size_def
        miniscript_get_script_size_def miniscript_get_static_ops_def split: option.split)
  have satisfy_node:
    "miniscript_satisfy L n cbs nonmalleable
       = empty_result\<lparr>sat_error_message := Some ''Invalid node: null pointer''\<rparr>"
    using assms
    by (auto simp: miniscript_satisfy_def tree_of_def strdup_safe_def split: option.splits)
  have satisfy_null:
    "availability (miniscript_satisfy L m None nonmalleable) = MINISCRIPT_AVAILABILITY_NO"
    "stack (miniscript_satisfy L m None nonmalleable) = None"
    "stack_sizes (miniscript_satisfy L m None nonmalleable) = None"
    "stack_count (miniscript_satisfy L m None nonmalleable) = 0"
    "sat_error_message (miniscript_satisfy L m None nonmalleable) \<noteq> None"
    by (auto simp: miniscript_satisfy_def empty_result_def strdup_safe_def split: option.splits)
  have free: "miniscript_satisfaction_result_free None = None"
    by (simp add: miniscript_satisfaction_result_free_def)
  show ?thesis
    by (intro conjI parsers printers queries slots_node slots_null satisfy_node satisfy_null free)
qed

theorem null_arguments_rejected_witness:
  "tree_of (Some \<lparr>node = (None :: pk_tree option), ctx = P2WSH\<rparr>) = None
   \<and> miniscript_is_valid pk_lib (Some \<lparr>node = None, ctx = P2WSH\<rparr>) = False
   \<and> miniscript_to_string pk_lib (Some \<lparr>node = None, ctx = P2WSH\<rparr>) = None
   \<and> miniscript_to_script pk_lib (Some \<lparr>node = None, ctx = P2WSH\<rparr>) (Some None) (Some 7)
       = (False, Some None, Some 7)
   \<and> miniscript_get_ops pk_lib (Some \<lparr>node = Some (Pk ''A''), ctx = P2WSH\<rparr>) None
       = (False, None)
   \<and> sat_error_message
        (miniscript_satisfy pk_lib (Some \<lparr>node = None, ctx = P2WSH\<rparr>) (Some signing_callbacks) True)
       = Some ''Invalid node: null pointer''"
  using null_arguments_rejected
          [where n = "Some \<lparr>node = (None :: pk_tree option), ctx = P2WSH\<rparr>" and L = pk_lib
             and m = "Some \<lparr>node = Some (Pk ''A''), ctx = P2WSH\<rparr>"
             and out_script = "Some None" and out_len = "Some 7"
             and cbs = "Some signing_callbacks" and nonmalleable = True]
  by (simp add: tree_of_def)

end
